theory Spec2Isabelle
  imports Main "HOL-Library.Word"
begin

unbundle bit_operations_syntax

section \<open>The XBee API-frame driver: data model\<close>

text \<open>
  A shallow embedding of \<^verbatim>\<open>src/xbee_api_frames.c\<close>, \<^verbatim>\<open>src/xbee.c\<close> and
  \<^verbatim>\<open>src/xbee_cellular.c\<close>. The C functions mutate the device through \<^verbatim>\<open>XBee* self\<close>
  and reach the platform through the function pointers of \<^verbatim>\<open>self->htable\<close>; here every
  function takes the device record and returns the updated one. Undefined behaviour of the
  C program (a null pointer read, a write past a stack buffer) is a result of its own,
  \<open>Inl\<close> of a \<open>fault\<close>, and so is a loop that is cut off by its fuel.
\<close>

type_synonym byte = "8 word"

datatype fault = NullPointer | OutOfBounds | FuelExhausted

text \<open>\<^verbatim>\<open>uart_status_t\<close> of \<^verbatim>\<open>include/port.h\<close>.\<close>

datatype uart_status_t =
  UART_SUCCESS | UART_INIT_FAILED | UART_ERROR_TIMEOUT | UART_ERROR_OVERRUN | UART_ERROR_UNKNOWN

text \<open>
  Modelled from the spec: the result codes of the missing header \<^verbatim>\<open>xbee_api_frames.h\<close>
  (section 7 of the specification names them; their numeric values are not in the
  sources, except that \<^verbatim>\<open>API_SEND_SUCCESS\<close> is 0, as the comments of
  \<^verbatim>\<open>api_send_frame\<close> say). \<^verbatim>\<open>API_SEND_ERROR_BUFFER_TOO_SMALL\<close> is used by
  \<^verbatim>\<open>test/test_xbee_api_frames.c\<close> only.
\<close>

datatype api_send_status =
  API_SEND_SUCCESS
  | API_SEND_ERROR_UART_FAILURE
  | API_SEND_ERROR_FRAME_TOO_LARGE
  | API_SEND_ERROR_INVALID_COMMAND
  | API_SEND_AT_CMD_ERROR
  | API_SEND_AT_CMD_RESONSE_TIMEOUT
  | API_SEND_ERROR_BUFFER_TOO_SMALL

text \<open>
  Modelled from the spec: \<^verbatim>\<open>XBEE_MAX_FRAME_DATA_SIZE\<close> and the frame type codes of the
  missing header \<^verbatim>\<open>xbee_api_frames.h\<close> (sections 4.C and 6 of the specification).
\<close>

definition XBEE_MAX_FRAME_DATA_SIZE :: nat where
  "XBEE_MAX_FRAME_DATA_SIZE = 256"

definition XBEE_API_TYPE_AT_COMMAND :: byte where "XBEE_API_TYPE_AT_COMMAND = 0x08"
definition XBEE_API_TYPE_AT_RESPONSE :: byte where "XBEE_API_TYPE_AT_RESPONSE = 0x88"
definition XBEE_API_TYPE_MODEM_STATUS :: byte where "XBEE_API_TYPE_MODEM_STATUS = 0x8A"
definition XBEE_API_TYPE_TX_STATUS :: byte where "XBEE_API_TYPE_TX_STATUS = 0x8B"
definition XBEE_API_TYPE_LR_RX_PACKET :: byte where "XBEE_API_TYPE_LR_RX_PACKET = 0xA0"
definition XBEE_API_TYPE_LR_EXPLICIT_RX_PACKET :: byte where
  "XBEE_API_TYPE_LR_EXPLICIT_RX_PACKET = 0xA1"
definition XBEE_API_TYPE_CELLULAR_TX_IPV4 :: byte where "XBEE_API_TYPE_CELLULAR_TX_IPV4 = 0x20"
definition XBEE_API_TYPE_CELLULAR_SOCKET_CREATE :: byte where
  "XBEE_API_TYPE_CELLULAR_SOCKET_CREATE = 0x40"
definition XBEE_API_TYPE_CELLULAR_SOCKET_CONNECT :: byte where
  "XBEE_API_TYPE_CELLULAR_SOCKET_CONNECT = 0x42"
definition XBEE_API_TYPE_CELLULAR_SOCKET_CLOSE :: byte where
  "XBEE_API_TYPE_CELLULAR_SOCKET_CLOSE = 0x43"
definition XBEE_API_TYPE_CELLULAR_SOCKET_SEND :: byte where
  "XBEE_API_TYPE_CELLULAR_SOCKET_SEND = 0x44"
definition XBEE_API_TYPE_CELLULAR_SOCKET_SEND_TO :: byte where
  "XBEE_API_TYPE_CELLULAR_SOCKET_SEND_TO = 0x45"
definition XBEE_API_TYPE_CELLULAR_SOCKET_BIND :: byte where
  "XBEE_API_TYPE_CELLULAR_SOCKET_BIND = 0x46"
definition XBEE_API_TYPE_CELLULAR_SOCKET_CREATE_RESPONSE :: byte where
  "XBEE_API_TYPE_CELLULAR_SOCKET_CREATE_RESPONSE = 0xC0"
definition XBEE_API_TYPE_CELLULAR_SOCKET_CONNECT_RESPONSE :: byte where
  "XBEE_API_TYPE_CELLULAR_SOCKET_CONNECT_RESPONSE = 0xC2"
definition XBEE_API_TYPE_CELLULAR_SOCKET_BIND_RESPONSE :: byte where
  "XBEE_API_TYPE_CELLULAR_SOCKET_BIND_RESPONSE = 0xC6"
definition XBEE_API_TYPE_CELLULAR_SOCKET_RX :: byte where
  "XBEE_API_TYPE_CELLULAR_SOCKET_RX = 0xCD"
definition XBEE_API_TYPE_CELLULAR_SOCKET_RX_FROM :: byte where
  "XBEE_API_TYPE_CELLULAR_SOCKET_RX_FROM = 0xCE"
definition XBEE_API_TYPE_CELLULAR_SOCKET_STATUS :: byte where
  "XBEE_API_TYPE_CELLULAR_SOCKET_STATUS = 0xCF"

text \<open>
  \<^verbatim>\<open>xbee_api_frame_t\<close>: the declaration is in the missing header; the fields are the ones
  the sources read and write (\<^verbatim>\<open>type\<close>, \<^verbatim>\<open>length\<close>, \<^verbatim>\<open>checksum\<close>,
  \<^verbatim>\<open>data[XBEE_MAX_FRAME_DATA_SIZE]\<close>). \<open>frm_length\<close> is the \<^verbatim>\<open>uint16_t\<close> as a
  natural number below 65536; \<open>frm_data\<close> always has \<open>XBEE_MAX_FRAME_DATA_SIZE\<close> bytes.
\<close>

record xbee_api_frame_t =
  frm_type :: byte
  frm_length :: nat
  frm_checksum :: byte
  frm_data :: "byte list"

text \<open>
  The trace of what the driver did, kept beside the C state so that the order of its
  actions can be stated: a buffer handed to \<^verbatim>\<open>PortUartWrite\<close>, a frame that
  \<^verbatim>\<open>api_receive_api_frame\<close> returned with status 0, a frame passed to
  \<^verbatim>\<open>api_handle_frame\<close>.
\<close>

datatype event =
  Wrote "byte list"
  | Received xbee_api_frame_t
  | Routed xbee_api_frame_t

text \<open>
  \<^verbatim>\<open>XBeeHTable\<close> of \<^verbatim>\<open>include/xbee.h\<close>: the platform functions, over a platform state
  \<open>'w\<close> that the caller chooses. \<open>PortUartRead n\<close> is
  \<^verbatim>\<open>PortUartRead(buf, n, &bytes_read)\<close>: it returns the status and the bytes it stored in
  \<^verbatim>\<open>buf\<close>, whose number is \<^verbatim>\<open>bytes_read\<close>.
\<close>

record 'w XBeeHTable =
  PortUartRead :: "nat \<Rightarrow> 'w \<Rightarrow> (uart_status_t \<times> byte list) \<times> 'w"
  PortUartWrite :: "byte list \<Rightarrow> 'w \<Rightarrow> int \<times> 'w"
  PortMillis :: "'w \<Rightarrow> 32 word \<times> 'w"
  PortUartInit :: "32 word \<Rightarrow> string \<Rightarrow> 'w \<Rightarrow> int \<times> 'w"
  PortDelay :: "32 word \<Rightarrow> 'w \<Rightarrow> 'w"

text \<open>
  \<^verbatim>\<open>XBeeVTable\<close>: the entries the modelled functions call. A handler is \<open>None\<close> when the
  pointer is \<^verbatim>\<open>NULL\<close>; it acts on the platform and application state.
\<close>

record 'w XBeeVTable =
  init :: "32 word \<Rightarrow> string \<Rightarrow> 'w \<Rightarrow> bool \<times> 'w"
  handle_rx_packet_frame :: "(xbee_api_frame_t \<Rightarrow> 'w \<Rightarrow> 'w) option"
  handle_transmit_status_frame :: "(xbee_api_frame_t \<Rightarrow> 'w \<Rightarrow> 'w) option"

text \<open>
  \<^verbatim>\<open>XBeeCellularPacket_t\<close> of \<^verbatim>\<open>include/xbee_cellular.h\<close>. \<open>pkt_payload\<close> is \<open>None\<close>
  for a \<^verbatim>\<open>NULL\<close> pointer and otherwise the bytes readable at the pointer; \<open>pkt_ip\<close> has
  four bytes.
\<close>

record XBeeCellularPacket_t =
  pkt_protocol :: byte
  pkt_port :: "16 word"
  pkt_ip :: "byte list"
  pkt_payload :: "byte list option"
  pkt_payloadSize :: "16 word"
  pkt_frameId :: byte
  pkt_socketId :: byte
  pkt_remotePort :: "16 word"
  pkt_status :: byte

text \<open>
  \<^verbatim>\<open>XBeeCTable\<close>: the receive callback, which the cellular variant calls with a packet.
\<close>

record 'w XBeeCTable =
  OnReceiveCallback :: "(XBeeCellularPacket_t \<Rightarrow> 'w \<Rightarrow> 'w) option"

text \<open>
  \<^verbatim>\<open>struct XBee\<close>, with the state behind its tables (\<open>host\<close>) and the trace. \<open>ctable\<close> is
  \<open>None\<close> for a \<^verbatim>\<open>NULL\<close> callback table.
\<close>

record 'w XBee =
  vtable :: "'w XBeeVTable"
  htable :: "'w XBeeHTable"
  ctable :: "'w XBeeCTable option"
  frameIdCntr :: byte
  host :: 'w
  trace :: "event list"

text \<open>
  Modelled from the spec: the AT-command catalog of the missing \<^verbatim>\<open>xbee_at_cmds.c\<close>
  (section 4.B: each defined identifier has a two-character code, the invalid identifier
  yields a sentinel, which \<^verbatim>\<open>api_send_at_command\<close> compares with \<^verbatim>\<open>NULL\<close>). The
  identifiers are the ones \<^verbatim>\<open>src/xbee.c\<close> and \<^verbatim>\<open>src/xbee_cellular.c\<close> use;
  \<open>AT_INVALID\<close> stands for every value outside the catalog, such as the
  \<^verbatim>\<open>(at_command_t)0xFF\<close> of the tests.
\<close>

datatype at_command_t =
  AT_VR | AT_HV | AT_DB | AT_SH | AT_SL | AT_WR | AT_AC | AT_AO | AT_RE | AT_FR | AT_CN
  | AT_AP | AT_BD | AT_AI | AT_PN | AT_AN | AT_CP | AT_SD | AT_INVALID

fun at_command_to_string :: "at_command_t \<Rightarrow> string option" where
  "at_command_to_string AT_VR = Some ''VR''"
| "at_command_to_string AT_HV = Some ''HV''"
| "at_command_to_string AT_DB = Some ''DB''"
| "at_command_to_string AT_SH = Some ''SH''"
| "at_command_to_string AT_SL = Some ''SL''"
| "at_command_to_string AT_WR = Some ''WR''"
| "at_command_to_string AT_AC = Some ''AC''"
| "at_command_to_string AT_AO = Some ''AO''"
| "at_command_to_string AT_RE = Some ''RE''"
| "at_command_to_string AT_FR = Some ''FR''"
| "at_command_to_string AT_CN = Some ''CN''"
| "at_command_to_string AT_AP = Some ''AP''"
| "at_command_to_string AT_BD = Some ''BD''"
| "at_command_to_string AT_AI = Some ''AI''"
| "at_command_to_string AT_PN = Some ''PN''"
| "at_command_to_string AT_AN = Some ''AN''"
| "at_command_to_string AT_CP = Some ''CP''"
| "at_command_to_string AT_SD = Some ''SD''"
| "at_command_to_string AT_INVALID = None"

text \<open>
  \<^verbatim>\<open>memcpy(dst, src, n)\<close> on buffers given by the bytes readable at \<open>src\<close> and the bytes
  writable at \<open>dst\<close>: the new contents of \<open>dst\<close>, or undefined behaviour when \<open>n\<close> exceeds
  either.
\<close>

definition memcpy :: "byte list \<Rightarrow> byte list \<Rightarrow> nat \<Rightarrow> fault + byte list" where
  "memcpy dst src n =
    (if length src < n \<or> length dst < n then Inl OutOfBounds
     else Inr (take n src @ drop n dst))"

section \<open>Frame codec (\<^verbatim>\<open>src/xbee_api_frames.c\<close>)\<close>

text \<open>
  \<^verbatim>\<open>calculate_checksum(frame, len)\<close>: the sum, in \<^verbatim>\<open>uint8_t\<close>, of the bytes from index 3
  to \<open>len - 1\<close>, subtracted from \<open>0xFF\<close>.
\<close>

definition calculate_checksum :: "byte list \<Rightarrow> nat \<Rightarrow> byte" where
  "calculate_checksum frame len = 0xFF - sum_list (drop 3 (take len frame))"

text \<open>
  \<^verbatim>\<open>api_send_frame\<close>. \<open>data\<close> are the bytes readable at the pointer \<^verbatim>\<open>data\<close>, \<open>len\<close> is
  the \<^verbatim>\<open>uint16_t len\<close>. The frame is built in \<^verbatim>\<open>uint8_t frame[256]\<close>: the \<^verbatim>\<open>memcpy\<close>
  writes indices \<open>4 .. 3 + len\<close> and the checksum goes to index \<open>4 + len\<close>, so a \<open>len\<close> above
  251 writes past the buffer. \<^verbatim>\<open>(len + 1) >> 8\<close> and \<^verbatim>\<open>(len + 1) & 0xFF\<close> are computed in
  \<^verbatim>\<open>int\<close> and stored in a byte.
\<close>

definition api_send_frame ::
  "'w XBee \<Rightarrow> byte \<Rightarrow> byte list \<Rightarrow> nat \<Rightarrow> fault + (api_send_status \<times> 'w XBee)" where
  "api_send_frame self frame_type data len =
    (let c = frameIdCntr self + 1;
         self1 = self\<lparr>frameIdCntr := (if c = 0 then 1 else c)\<rparr>;
         header = [0x7E, of_nat ((len + 1) div 256), of_nat ((len + 1) mod 256), frame_type]
     in if length data < len then Inl OutOfBounds
        else if 256 < 4 + len then Inl OutOfBounds
        else let frame = header @ take len data;
                 frame_length = 4 + len
             in if 256 \<le> frame_length then Inl OutOfBounds
                else let frame' = frame @ [calculate_checksum frame frame_length];
                         (uart_status, w) = PortUartWrite (htable self1) frame' (host self1);
                         self2 = self1\<lparr>host := w, trace := trace self1 @ [Wrote frame']\<rparr>
                     in if uart_status \<noteq> 0 then Inr (API_SEND_ERROR_UART_FAILURE, self2)
                        else Inr (API_SEND_SUCCESS, self2))"

text \<open>\<^verbatim>\<open>memset(frame, 0, sizeof(xbee_api_frame_t))\<close>.\<close>

definition zero_frame :: xbee_api_frame_t where
  "zero_frame =
    \<lparr>frm_type = 0, frm_length = 0, frm_checksum = 0,
     frm_data = replicate XBEE_MAX_FRAME_DATA_SIZE 0\<rparr>"

text \<open>
  \<^verbatim>\<open>api_receive_api_frame\<close>. The argument is \<open>None\<close> for a \<^verbatim>\<open>NULL\<close> frame pointer. The
  result is the returned \<^verbatim>\<open>int\<close>, the frame structure as the call leaves it, and the
  device. \<^verbatim>\<open>(length_bytes[0] << 8) | length_bytes[1]\<close> is written as
  \<open>256 * hi + lo\<close>, the same number for two bytes.
\<close>

definition api_receive_api_frame ::
  "'w XBee \<Rightarrow> xbee_api_frame_t option \<Rightarrow> int \<times> xbee_api_frame_t option \<times> 'w XBee" where
  "api_receive_api_frame self frame_ptr =
    (case frame_ptr of
       None \<Rightarrow> (-1, None, self)
     | Some _ \<Rightarrow>
        let frame = zero_frame;
            ((status1, b1), w1) = PortUartRead (htable self) 1 (host self);
            self1 = self\<lparr>host := w1\<rparr>
        in if status1 \<noteq> UART_SUCCESS \<or> int (length b1) \<le> 0 then (-2, Some frame, self1)
           else if hd b1 \<noteq> 0x7E then (-3, Some frame, self1)
           else
            let ((status2, b2), w2) = PortUartRead (htable self) 2 (host self1);
                self2 = self1\<lparr>host := w2\<rparr>
            in if status2 \<noteq> UART_SUCCESS \<or> length b2 \<noteq> 2 then (-4, Some frame, self2)
               else
                let len = 256 * unat (b2 ! 0) + unat (b2 ! 1)
                in if len > XBEE_MAX_FRAME_DATA_SIZE then (-5, Some frame, self2)
                   else
                    let ((status3, b3), w3) = PortUartRead (htable self) len (host self2);
                        self3 = self2\<lparr>host := w3\<rparr>;
                        frame3 = frame\<lparr>frm_data := b3 @ drop (length b3) (frm_data frame)\<rparr>
                    in if status3 \<noteq> UART_SUCCESS \<or> length b3 \<noteq> len
                       then (-6, Some frame3, self3)
                       else
                        let ((status4, b4), w4) = PortUartRead (htable self) 1 (host self3);
                            self4 = self3\<lparr>host := w4\<rparr>;
                            frame4 = (if b4 = [] then frame3
                                      else frame3\<lparr>frm_checksum := hd b4\<rparr>)
                        in if status4 \<noteq> UART_SUCCESS \<or> length b4 \<noteq> 1
                           then (-7, Some frame4, self4)
                           else
                            let frame5 = frame4\<lparr>frm_length := len,
                                                frm_type := frm_data frame4 ! 0\<rparr>;
                                checksum = frm_checksum frame5
                                             + sum_list (take len (frm_data frame5))
                            in if checksum \<noteq> 0xFF then (-8, Some frame5, self4)
                               else (0, Some frame5,
                                     self4\<lparr>trace := trace self4 @ [Received frame5]\<rparr>))"

section \<open>Frame router and AT commands (\<^verbatim>\<open>src/xbee_api_frames.c\<close>)\<close>

text \<open>
  \<^verbatim>\<open>xbee_handle_at_response\<close> and \<^verbatim>\<open>xbee_handle_modem_status\<close> only print; the
  diagnostic output of the driver is not part of the model.
\<close>

definition xbee_handle_at_response :: "'w XBee \<Rightarrow> xbee_api_frame_t \<Rightarrow> 'w XBee" where
  "xbee_handle_at_response self frame = self"

definition xbee_handle_modem_status :: "'w XBee \<Rightarrow> xbee_api_frame_t \<Rightarrow> 'w XBee" where
  "xbee_handle_modem_status self frame = self"

text \<open>\<^verbatim>\<open>api_handle_frame\<close>: the \<^verbatim>\<open>switch\<close> on the frame type, case by case.\<close>

definition api_handle_frame :: "'w XBee \<Rightarrow> xbee_api_frame_t \<Rightarrow> 'w XBee" where
  "api_handle_frame self frame =
    (let self1 = self\<lparr>trace := trace self @ [Routed frame]\<rparr>
     in if frm_type frame = XBEE_API_TYPE_AT_RESPONSE then xbee_handle_at_response self1 frame
        else if frm_type frame = XBEE_API_TYPE_MODEM_STATUS
          then xbee_handle_modem_status self1 frame
        else if frm_type frame = XBEE_API_TYPE_TX_STATUS then
          (case handle_transmit_status_frame (vtable self1) of
             None \<Rightarrow> self1
           | Some handler \<Rightarrow> self1\<lparr>host := handler frame (host self1)\<rparr>)
        else if frm_type frame = XBEE_API_TYPE_LR_RX_PACKET
                \<or> frm_type frame = XBEE_API_TYPE_LR_EXPLICIT_RX_PACKET then
          (case handle_rx_packet_frame (vtable self1) of
             None \<Rightarrow> self1
           | Some handler \<Rightarrow> self1\<lparr>host := handler frame (host self1)\<rparr>)
        else self1)"

text \<open>
  \<^verbatim>\<open>api_send_at_command\<close>. \<open>parameter\<close> is \<open>None\<close> for \<^verbatim>\<open>NULL\<close>, otherwise the bytes
  readable at the pointer. The source reads \<^verbatim>\<open>cmd_str[0]\<close> and \<^verbatim>\<open>cmd_str[1]\<close> before it
  compares \<^verbatim>\<open>cmd_str\<close> with \<^verbatim>\<open>NULL\<close>; the parameter is copied to
  \<^verbatim>\<open>&frame_data[3]\<close>, where 125 of the 128 bytes of \<^verbatim>\<open>frame_data\<close> remain.
\<close>

definition api_send_at_command ::
  "'w XBee \<Rightarrow> at_command_t \<Rightarrow> byte list option \<Rightarrow> byte
    \<Rightarrow> fault + (api_send_status \<times> 'w XBee)" where
  "api_send_at_command self command parameter param_length =
    (if unat param_length > 128 then Inr (API_SEND_ERROR_FRAME_TOO_LARGE, self)
     else
      (case at_command_to_string command of
         None \<Rightarrow> Inl NullPointer
       | Some cmd_str \<Rightarrow>
          let frame_data = [frameIdCntr self, of_char (cmd_str ! 0), of_char (cmd_str ! 1)]
          in if at_command_to_string command = None
             then Inr (API_SEND_ERROR_INVALID_COMMAND, self)
             else if param_length > 0 then
               (case parameter of
                  None \<Rightarrow> Inl NullPointer
                | Some p \<Rightarrow>
                   (case memcpy (replicate 125 0) p (unat param_length) of
                      Inl e \<Rightarrow> Inl e
                    | Inr rest \<Rightarrow>
                       api_send_frame self XBEE_API_TYPE_AT_COMMAND (frame_data @ rest)
                         (3 + unat param_length)))
             else api_send_frame self XBEE_API_TYPE_AT_COMMAND
                    (frame_data @ replicate 125 0) 3))"

text \<open>
  The \<^verbatim>\<open>while (1)\<close> loop of \<^verbatim>\<open>api_send_at_command_and_get_response\<close>, with fuel: one
  unit for each iteration. \<open>response_buffer\<close> is \<open>None\<close> for \<^verbatim>\<open>NULL\<close>, otherwise the
  bytes of the caller's buffer (its length is the buffer's capacity); \<open>response_length\<close> is
  \<open>None\<close> for \<^verbatim>\<open>NULL\<close>, otherwise the value at the pointer. Both are returned as the call
  leaves them. \<^verbatim>\<open>*response_length = frame.length - 5\<close> is a \<^verbatim>\<open>uint8_t\<close> store.
\<close>

fun at_response_loop ::
  "nat \<Rightarrow> 'w XBee \<Rightarrow> byte list option \<Rightarrow> byte option \<Rightarrow> 32 word \<Rightarrow> 32 word
    \<Rightarrow> fault + (api_send_status \<times> byte list option \<times> byte option \<times> 'w XBee)" where
  "at_response_loop 0 self response_buffer response_length start_time timeout_ms =
     Inl FuelExhausted"
| "at_response_loop (Suc n) self response_buffer response_length start_time timeout_ms =
    (case api_receive_api_frame self (Some zero_frame) of
       (status, None, self1) \<Rightarrow> Inl NullPointer
     | (status, Some frame, self1) \<Rightarrow>
        if status = 0 \<and> frm_type frame = XBEE_API_TYPE_AT_RESPONSE then
          (case response_length of
             None \<Rightarrow> Inl NullPointer
           | Some _ \<Rightarrow>
              let len = (of_int (int (frm_length frame) - 5) :: byte)
              in if frm_data frame ! 4 = 0 then
                   (case response_buffer of
                      None \<Rightarrow> Inr (API_SEND_SUCCESS, None, Some len, self1)
                    | Some buf \<Rightarrow>
                       if len \<noteq> 0 then
                         (case memcpy buf (drop 5 (frm_data frame)) (unat len) of
                            Inl e \<Rightarrow> Inl e
                          | Inr buf' \<Rightarrow> Inr (API_SEND_SUCCESS, Some buf', Some len, self1))
                       else Inr (API_SEND_SUCCESS, Some buf, Some len, self1))
                 else Inr (API_SEND_AT_CMD_ERROR, response_buffer, Some len, self1))
        else
          let self2 = (if status = 0 then api_handle_frame self1 frame else self1);
              (now, w) = PortMillis (htable self2) (host self2);
              self3 = self2\<lparr>host := w\<rparr>
          in if now - start_time \<ge> timeout_ms
             then Inr (API_SEND_AT_CMD_RESONSE_TIMEOUT, response_buffer, response_length, self3)
             else at_response_loop n
                    (self3\<lparr>host := PortDelay (htable self3) 1 (host self3)\<rparr>)
                    response_buffer response_length start_time timeout_ms)"

text \<open>
  \<^verbatim>\<open>api_send_at_command_and_get_response\<close>. \<open>parameter\<close> is \<open>None\<close> for \<^verbatim>\<open>NULL\<close>,
  otherwise the characters of the C string before its terminator; \<^verbatim>\<open>param_length\<close> is
  \<^verbatim>\<open>strlen(parameter)\<close> stored in a \<^verbatim>\<open>uint8_t\<close>. The status that
  \<^verbatim>\<open>api_send_at_command\<close> returns is not read.
\<close>

definition api_send_at_command_and_get_response ::
  "nat \<Rightarrow> 'w XBee \<Rightarrow> at_command_t \<Rightarrow> byte list option \<Rightarrow> byte list option \<Rightarrow> byte option
    \<Rightarrow> 32 word
    \<Rightarrow> fault + (api_send_status \<times> byte list option \<times> byte option \<times> 'w XBee)" where
  "api_send_at_command_and_get_response fuel self command parameter response_buffer
      response_length timeout_ms =
    (let param_length = (case parameter of None \<Rightarrow> (0 :: byte)
                         | Some str \<Rightarrow> of_nat (length str))
     in (case api_send_at_command self command (map_option (\<lambda>str. str @ [0]) parameter)
               param_length of
          Inl e \<Rightarrow> Inl e
        | Inr (send_status, self1) \<Rightarrow>
           (let (start_time, w) = PortMillis (htable self1) (host self1)
            in at_response_loop fuel (self1\<lparr>host := w\<rparr>) response_buffer response_length
                 start_time timeout_ms)))"

section \<open>Base device and cellular variant (\<^verbatim>\<open>src/xbee.c\<close>, \<^verbatim>\<open>src/xbee_cellular.c\<close>)\<close>

text \<open>
  \<^verbatim>\<open>src/xbee_cellular.c\<close> calls the codec by the names \<^verbatim>\<open>apiSendFrame\<close>,
  \<^verbatim>\<open>apiReceiveApiFrame\<close> and \<^verbatim>\<open>apiSendAtCommand\<close>; they are the functions
  \<^verbatim>\<open>api_send_frame\<close>, \<^verbatim>\<open>api_receive_api_frame\<close> and \<^verbatim>\<open>api_send_at_command\<close> above.
\<close>


text \<open>\<^verbatim>\<open>XBeeCellularInit\<close>, on the platform table of the device.\<close>

definition XBeeCellularInit :: "'w XBeeHTable \<Rightarrow> 32 word \<Rightarrow> string \<Rightarrow> 'w \<Rightarrow> bool \<times> 'w" where
  "XBeeCellularInit ht baudRate device w =
    (let (r, w') = PortUartInit ht baudRate device w in (r = 0, w'))"

text \<open>
  \<^verbatim>\<open>XBeeCellularSendPacket\<close>. The frame is built in \<^verbatim>\<open>uint8_t frame[128]\<close>; after the
  four header bytes, 124 bytes remain for the address and the payload. \<^verbatim>\<open>offset\<close> is a
  \<^verbatim>\<open>uint8_t\<close>.
\<close>

definition XBeeCellularSendPacket ::
  "'w XBee \<Rightarrow> XBeeCellularPacket_t \<Rightarrow> fault + (byte \<times> 'w XBee)" where
  "XBeeCellularSendPacket self packet =
    (let frameId = frameIdCntr self;
         header = [frameId, pkt_protocol packet, ucast (drop_bit 8 (pkt_port packet)),
                   ucast (pkt_port packet AND 0xFF)]
     in (case memcpy (replicate 124 0) (pkt_ip packet) 4 of
           Inl e \<Rightarrow> Inl e
         | Inr b1 \<Rightarrow>
            (case pkt_payload packet of
               None \<Rightarrow> Inl NullPointer
             | Some pl \<Rightarrow>
                (case memcpy (drop 4 b1) pl (unat (pkt_payloadSize packet)) of
                   Inl e \<Rightarrow> Inl e
                 | Inr b2 \<Rightarrow>
                    (let frame = header @ take 4 b1 @ b2;
                         offset = (8 + ucast (pkt_payloadSize packet) :: byte)
                     in (case api_send_frame self XBEE_API_TYPE_CELLULAR_TX_IPV4 frame
                                (unat offset) of
                           Inl e \<Rightarrow> Inl e
                         | Inr (status, self') \<Rightarrow>
                            Inr (if status = API_SEND_SUCCESS then 0x00 else 0xFF, self')))))))"

text \<open>
  \<^verbatim>\<open>XBeeCellularHandleRxPacket\<close>, the receive handler of the cellular variant, on the
  callback table of the device. The payload pointer of the packet points into the frame.
\<close>

definition XBeeCellularHandleRxPacket ::
  "'w XBeeCTable option \<Rightarrow> xbee_api_frame_t \<Rightarrow> 'w \<Rightarrow> 'w" where
  "XBeeCellularHandleRxPacket ct frame w =
    (if frm_type frame \<noteq> XBEE_API_TYPE_CELLULAR_SOCKET_RX
        \<and> frm_type frame \<noteq> XBEE_API_TYPE_CELLULAR_SOCKET_RX_FROM then w
     else if (frm_type frame = XBEE_API_TYPE_CELLULAR_SOCKET_RX \<and> frm_length frame < 3)
        \<or> (frm_type frame = XBEE_API_TYPE_CELLULAR_SOCKET_RX_FROM \<and> frm_length frame < 9)
     then w
     else
      let data = frm_data frame;
          packet0 = \<lparr>pkt_protocol = 0xFF, pkt_port = 0, pkt_ip = [0, 0, 0, 0],
                     pkt_payload = None, pkt_payloadSize = 0, pkt_frameId = data ! 0,
                     pkt_socketId = data ! 1, pkt_remotePort = 0, pkt_status = data ! 2\<rparr>;
          remote = (push_bit 8 (ucast (data ! 7)) OR ucast (data ! 8) :: 16 word);
          packet =
            (if frm_type frame = XBEE_API_TYPE_CELLULAR_SOCKET_RX
             then packet0\<lparr>pkt_payload := Some (drop 3 data),
                          pkt_payloadSize := of_nat (frm_length frame - 3)\<rparr>
             else packet0\<lparr>pkt_ip := take 4 (drop 3 data), pkt_remotePort := remote,
                          pkt_payload := Some (drop 9 data),
                          pkt_payloadSize := of_nat (frm_length frame - 9),
                          pkt_port := remote\<rparr>)
      in (case ct of
            None \<Rightarrow> w
          | Some callbacks \<Rightarrow>
             (case OnReceiveCallback callbacks of
                None \<Rightarrow> w
              | Some callback \<Rightarrow> callback packet w)))"

text \<open>\<^verbatim>\<open>XBeeCellularVTable\<close> and \<^verbatim>\<open>XBeeCellularCreate\<close>; the counter of a new
  instance is whatever \<^verbatim>\<open>malloc\<close> left there.\<close>

definition XBeeCellularVTable :: "'w XBeeCTable option \<Rightarrow> 'w XBeeHTable \<Rightarrow> 'w XBeeVTable" where
  "XBeeCellularVTable cTable hTable =
    \<lparr>init = XBeeCellularInit hTable,
     handle_rx_packet_frame = Some (XBeeCellularHandleRxPacket cTable),
     handle_transmit_status_frame = None\<rparr>"

definition XBeeCellularCreate ::
  "'w XBeeCTable option \<Rightarrow> 'w XBeeHTable \<Rightarrow> byte \<Rightarrow> 'w \<Rightarrow> 'w XBee" where
  "XBeeCellularCreate cTable hTable uninitialised w =
    \<lparr>vtable = XBeeCellularVTable cTable hTable, htable = hTable, ctable = cTable,
     frameIdCntr = uninitialised, host = w, trace = []\<rparr>"









section \<open>A host port for running the driver\<close>

text \<open>
  Modelled from the spec: the host port of section 4.A, for the interface of
  \<^verbatim>\<open>include/port.h\<close> (no implementation of that interface is in the sources). The UART
  is a queue of pending input bytes and a log of the buffers written; a read that finds
  fewer bytes than it wants takes what is there and reports a timeout after
  \<^verbatim>\<open>UART_READ_TIMEOUT_MS\<close>; the clock advances by the delays and the timeouts.
  \<open>delivered\<close> collects the frames given to the handlers of the table \<open>sim_vtable\<close>,
  \<open>packets\<close> the packets given to the receive callback of \<open>sim_ctable\<close>.
\<close>

record sim =
  rx :: "byte list"
  tx :: "byte list list"
  clock :: "32 word"
  delivered :: "xbee_api_frame_t list"
  packets :: "XBeeCellularPacket_t list"

definition UART_READ_TIMEOUT_MS :: "32 word" where
  "UART_READ_TIMEOUT_MS = 1000"

definition sim_uart_read :: "nat \<Rightarrow> sim \<Rightarrow> (uart_status_t \<times> byte list) \<times> sim" where
  "sim_uart_read n w =
    (if n \<le> length (rx w) then ((UART_SUCCESS, take n (rx w)), w\<lparr>rx := drop n (rx w)\<rparr>)
     else ((UART_ERROR_TIMEOUT, rx w), w\<lparr>rx := [], clock := clock w + UART_READ_TIMEOUT_MS\<rparr>))"

definition sim_uart_write :: "byte list \<Rightarrow> sim \<Rightarrow> int \<times> sim" where
  "sim_uart_write bs w = (0, w\<lparr>tx := tx w @ [bs]\<rparr>)"

definition sim_htable :: "sim XBeeHTable" where
  "sim_htable =
    \<lparr>PortUartRead = sim_uart_read,
     PortUartWrite = sim_uart_write,
     PortMillis = (\<lambda>w. (clock w, w)),
     PortUartInit = (\<lambda>baudrate device w. (0, w)),
     PortDelay = (\<lambda>ms w. w\<lparr>clock := clock w + ms\<rparr>)\<rparr>"

definition sim_deliver :: "xbee_api_frame_t \<Rightarrow> sim \<Rightarrow> sim" where
  "sim_deliver frame w = w\<lparr>delivered := delivered w @ [frame]\<rparr>"

definition sim_vtable :: "sim XBeeVTable" where
  "sim_vtable =
    \<lparr>init = (\<lambda>baudrate device w. (True, w)),
     handle_rx_packet_frame = Some sim_deliver,
     handle_transmit_status_frame = Some sim_deliver\<rparr>"

definition sim_host :: "byte list \<Rightarrow> sim" where
  "sim_host input = \<lparr>rx = input, tx = [], clock = 0, delivered = [], packets = []\<rparr>"

definition sim_ctable :: "sim XBeeCTable" where
  "sim_ctable = \<lparr>OnReceiveCallback = Some (\<lambda>packet w. w\<lparr>packets := packets w @ [packet]\<rparr>)\<rparr>"

definition sim_xbee :: "byte \<Rightarrow> byte list \<Rightarrow> sim XBee" where
  "sim_xbee c input =
    \<lparr>vtable = sim_vtable, htable = sim_htable, ctable = None, frameIdCntr = c,
     host = sim_host input, trace = []\<rparr>"

text \<open>
  The bytes of a frame on the wire, as section 6 of the specification gives them:
  \<open>0x7E\<close>, the length of type and payload (big-endian), the type, the payload, the
  checksum.
\<close>

definition wire_frame :: "byte \<Rightarrow> byte list \<Rightarrow> byte list" where
  "wire_frame t p =
    [0x7E, of_nat ((length p + 1) div 256), of_nat ((length p + 1) mod 256), t] @ p
      @ [0xFF - sum_list (t # p)]"

text \<open>The frame structure that holds type \<open>t\<close> and payload \<open>p\<close> after a receive.\<close>

definition frame_of :: "byte \<Rightarrow> byte list \<Rightarrow> xbee_api_frame_t" where
  "frame_of t p =
    \<lparr>frm_type = t, frm_length = length p + 1, frm_checksum = 0xFF - sum_list (t # p),
     frm_data = (t # p) @ replicate (XBEE_MAX_FRAME_DATA_SIZE - (length p + 1)) 0\<rparr>"

text \<open>
  What \<^verbatim>\<open>api_receive_api_frame\<close> guarantees of a frame it returns with status 0: the
  length is within the data array, the type is the first data byte, the bytes after the
  length are the zeros of the \<^verbatim>\<open>memset\<close>.
\<close>

definition wf_frame :: "xbee_api_frame_t \<Rightarrow> bool" where
  "wf_frame f \<longleftrightarrow> frm_length f \<le> 256 \<and> length (frm_data f) = 256
     \<and> frm_type f = frm_data f ! 0
     \<and> (\<forall>i. frm_length f \<le> i \<and> i < 256 \<longrightarrow> frm_data f ! i = 0)"

text \<open>\<open>k\<close> successive calls of \<^verbatim>\<open>api_receive_api_frame\<close>: the status of each call and the
  device as the call leaves it.\<close>

fun receive_calls :: "nat \<Rightarrow> 'w XBee \<Rightarrow> (int \<times> 'w XBee) list" where
  "receive_calls 0 self = []"
| "receive_calls (Suc k) self =
    (case api_receive_api_frame self (Some zero_frame) of
       (status, frame, self') \<Rightarrow> (status, self') # receive_calls k self')"

text \<open>The packet of the specification's scenario 7: protocol 1, port 80, address 1.2.3.4,
  payload \<open>AA BB\<close>.\<close>

definition demo_packet :: XBeeCellularPacket_t where
  "demo_packet =
    \<lparr>pkt_protocol = 1, pkt_port = 80, pkt_ip = [1, 2, 3, 4], pkt_payload = Some [0xAA, 0xBB],
     pkt_payloadSize = 2, pkt_frameId = 0, pkt_socketId = 0, pkt_remotePort = 0,
     pkt_status = 0\<rparr>"

text \<open>Input streams for running the AT correlator: a modem status frame, a receive frame
  and an AT response with status 0 and frame ID \<open>0x63\<close>; an AT response with status 2.\<close>

definition at_demo_input :: "byte list" where
  "at_demo_input = wire_frame 0x8A [0x06] @ wire_frame 0xA0 [0x01]
     @ wire_frame 0x88 [0x63, 0x56, 0x52, 0x00, 0x12, 0x34]"

definition at_error_input :: "byte list" where
  "at_error_input = wire_frame 0x88 [0x01, 0x56, 0x52, 0x02, 0xAA]"

text \<open>
  A stream of frames on the wire, each given by its type and payload, and the frame
  structures that hold them after a receive.
\<close>

definition wire_frames :: "(byte \<times> byte list) list \<Rightarrow> byte list" where
  "wire_frames fs = concat (map (\<lambda>(t, q). wire_frame t q) fs)"

definition frames_of :: "(byte \<times> byte list) list \<Rightarrow> xbee_api_frame_t list" where
  "frames_of fs = map (\<lambda>(t, q). frame_of t q) fs"

text \<open>The events of frames that were received and passed to \<^verbatim>\<open>api_handle_frame\<close> one
  after the other: each frame is received, then routed, before the next is received.\<close>

definition received_and_routed :: "xbee_api_frame_t list \<Rightarrow> event list" where
  "received_and_routed fs = concat (map (\<lambda>f. [Received f, Routed f]) fs)"

section \<open>Effects of a call on the device\<close>











section \<open>Sequences of operations and the frame IDs they emit\<close>













lemmas frame_type_defs =
  XBEE_API_TYPE_AT_COMMAND_def XBEE_API_TYPE_AT_RESPONSE_def XBEE_API_TYPE_MODEM_STATUS_def
  XBEE_API_TYPE_TX_STATUS_def XBEE_API_TYPE_LR_RX_PACKET_def
  XBEE_API_TYPE_LR_EXPLICIT_RX_PACKET_def XBEE_API_TYPE_CELLULAR_TX_IPV4_def
  XBEE_API_TYPE_CELLULAR_SOCKET_CREATE_def XBEE_API_TYPE_CELLULAR_SOCKET_CONNECT_def
  XBEE_API_TYPE_CELLULAR_SOCKET_CLOSE_def XBEE_API_TYPE_CELLULAR_SOCKET_SEND_def
  XBEE_API_TYPE_CELLULAR_SOCKET_SEND_TO_def XBEE_API_TYPE_CELLULAR_SOCKET_BIND_def
  XBEE_API_TYPE_CELLULAR_SOCKET_CREATE_RESPONSE_def
  XBEE_API_TYPE_CELLULAR_SOCKET_CONNECT_RESPONSE_def
  XBEE_API_TYPE_CELLULAR_SOCKET_BIND_RESPONSE_def XBEE_API_TYPE_CELLULAR_SOCKET_RX_def
  XBEE_API_TYPE_CELLULAR_SOCKET_RX_FROM_def XBEE_API_TYPE_CELLULAR_SOCKET_STATUS_def

lemmas sim_defs = sim_xbee_def sim_host_def sim_htable_def sim_vtable_def sim_uart_read_def
  sim_uart_write_def sim_deliver_def UART_READ_TIMEOUT_MS_def

lemmas codec_defs = api_receive_api_frame_def api_send_frame_def calculate_checksum_def
  zero_frame_def XBEE_MAX_FRAME_DATA_SIZE_def wire_frame_def frame_of_def memcpy_def

lemmas at_defs = api_send_at_command_and_get_response_def api_send_at_command_def
  api_handle_frame_def xbee_handle_at_response_def xbee_handle_modem_status_def
  sim_defs codec_defs frame_type_defs Let_def word_le_nat_alt word_less_nat_alt


section \<open>The codec: what is sent and what is received\<close>

lemma be16: "n < 65536 \<Longrightarrow> 256 * unat (of_nat (n div 256) :: byte) + unat (of_nat (n mod 256) :: byte) = n"
  by (simp add: unat_of_nat)

lemma receive_wire_frame:
  assumes ht: "htable self = sim_htable" and rx: "rx (host self) = wire_frame t p @ rest"
    and len: "length p < 256"
  shows "api_receive_api_frame self (Some f0) =
    (0, Some (frame_of t p),
     self\<lparr>host := (host self)\<lparr>rx := rest\<rparr>, trace := trace self @ [Received (frame_of t p)]\<rparr>)"
proof -
  let ?n = "length p + 1"
  have n: "256 * unat (of_nat (?n div 256) :: byte) + unat (of_nat (?n mod 256) :: byte) = ?n"
    using len by (intro be16) simp
  have cs: "(0xFF - sum_list (t # p)) + sum_list (t # p) = (0xFF :: byte)" by simp
  show ?thesis
    using len n cs
    by (simp add: api_receive_api_frame_def ht rx sim_htable_def sim_uart_read_def
        wire_frame_def frame_of_def zero_frame_def XBEE_MAX_FRAME_DATA_SIZE_def Let_def
        del: of_nat_Suc of_nat_add)
qed

lemma checksum_wire:
  "calculate_checksum ([a, b, c, t] @ p) (4 + length p) = 0xFF - sum_list (t # p)"
  by (simp add: calculate_checksum_def)

lemma api_send_frame_ok:
  assumes "len \<le> 251" "len \<le> length data"
  shows "api_send_frame self t data len =
    (let W = PortUartWrite (htable self) (wire_frame t (take len data)) (host self)
     in Inr (if fst W = 0 then API_SEND_SUCCESS else API_SEND_ERROR_UART_FAILURE,
          self\<lparr>frameIdCntr := (if frameIdCntr self + 1 = 0 then 1 else frameIdCntr self + 1),
                host := snd W,
                trace := trace self @ [Wrote (wire_frame t (take len data))]\<rparr>))"
  using assms
  by (simp add: api_send_frame_def Let_def wire_frame_def calculate_checksum_def split: prod.splits)

lemma api_send_frame_fault:
  "251 < len \<Longrightarrow> api_send_frame self t data len = Inl OutOfBounds"
  by (simp add: api_send_frame_def Let_def)

lemma api_send_frame_Inr:
  assumes "api_send_frame self t data len = Inr (st, self')"
  shows "len \<le> 251 \<and> len \<le> length data
    \<and> trace self' = trace self @ [Wrote (wire_frame t (take len data))]
    \<and> frameIdCntr self' = (if frameIdCntr self + 1 = 0 then 1 else frameIdCntr self + 1)
    \<and> htable self' = htable self \<and> vtable self' = vtable self \<and> ctable self' = ctable self"
proof -
  have 1: "len \<le> 251" using assms api_send_frame_fault[of len self t data] by (cases "len \<le> 251") auto
  have 2: "len \<le> length data" using assms by (auto simp: api_send_frame_def Let_def split: if_splits)
  show ?thesis using assms 1 2 by (auto simp: api_send_frame_ok Let_def)
qed

lemma api_receive_api_frame_shape:
  assumes "api_receive_api_frame self fp = (r, fo, self')"
  shows "frameIdCntr self' = frameIdCntr self \<and> htable self' = htable self
    \<and> vtable self' = vtable self \<and> ctable self' = ctable self
    \<and> (if r = 0 then \<exists>f. fo = Some f \<and> wf_frame f \<and> trace self' = trace self @ [Received f]
        else trace self' = trace self)
    \<and> (fp \<noteq> None \<longrightarrow> fo \<noteq> None)"
  using assms
  apply (cases fp)
   apply (simp add: api_receive_api_frame_def)
  apply (simp add: api_receive_api_frame_def Let_def split: prod.splits if_splits)
  apply (auto simp: wf_frame_def zero_frame_def XBEE_MAX_FRAME_DATA_SIZE_def nth_append)
  done


text \<open>
  Claim C1, as the code has it: for every frame type \<open>t\<close> and every payload \<open>p\<close> of at most
  251 bytes (a frame that fits the 256-byte buffer of \<^verbatim>\<open>api_send_frame\<close>), the bytes that
  \<^verbatim>\<open>api_send_frame\<close> writes are \<open>0x7E\<close>, the big-endian length \<open>length p + 1\<close>, \<open>t\<close>, \<open>p\<close>
  and the checksum, and \<^verbatim>\<open>api_receive_api_frame\<close> reading exactly these bytes returns 0
  with a frame of type \<open>t\<close>, of length \<open>length p + 1\<close>, whose data after the type byte are
  \<open>p\<close>.
\<close>

theorem framing_round_trip_within_buffer:
  assumes "htable self = sim_htable" and "length p \<le> 251"
  shows "\<exists>self1 self2 frame.
    api_send_frame self t p (length p) = Inr (API_SEND_SUCCESS, self1)
    \<and> last (tx (host self1)) = wire_frame t p
    \<and> api_receive_api_frame (self1\<lparr>host := (host self1)\<lparr>rx := last (tx (host self1))\<rparr>\<rparr>)
         (Some zero_frame) = (0, Some frame, self2)
    \<and> frm_type frame = t \<and> frm_length frame = length p + 1
    \<and> take (length p) (drop 1 (frm_data frame)) = p"
proof -
  let ?self1 = "self\<lparr>frameIdCntr := (if frameIdCntr self + 1 = 0 then 1 else frameIdCntr self + 1),
      host := (host self)\<lparr>tx := tx (host self) @ [wire_frame t p]\<rparr>,
      trace := trace self @ [Wrote (wire_frame t p)]\<rparr>"
  have send: "api_send_frame self t p (length p) = Inr (API_SEND_SUCCESS, ?self1)"
    using assms by (simp add: api_send_frame_ok sim_htable_def sim_uart_write_def)
  have lst: "last (tx (host ?self1)) = wire_frame t p" by simp
  let ?loop = "?self1\<lparr>host := (host ?self1)\<lparr>rx := last (tx (host ?self1))\<rparr>\<rparr>"
  have recv: "api_receive_api_frame ?loop (Some zero_frame) =
      (0, Some (frame_of t p),
       ?loop\<lparr>host := (host ?loop)\<lparr>rx := []\<rparr>, trace := trace ?loop @ [Received (frame_of t p)]\<rparr>)"
    using assms by (intro receive_wire_frame) simp_all
  have fr: "frm_type (frame_of t p) = t \<and> frm_length (frame_of t p) = length p + 1
      \<and> take (length p) (drop 1 (frm_data (frame_of t p))) = p"
    by (simp add: frame_of_def)
  show ?thesis using send lst recv fr by blast
qed

text \<open>
  Claim C1 as stated lets the payload have up to 254 bytes. With 252 bytes the checksum is
  written to \<^verbatim>\<open>frame[256]\<close>, past the end of the buffer of \<^verbatim>\<open>api_send_frame\<close>.
\<close>

theorem framing_round_trip_counterexample:
  "length (replicate 252 (0 :: byte)) < XBEE_MAX_FRAME_DATA_SIZE - 1
   \<and> api_send_frame (sim_xbee 1 []) 0x10 (replicate 252 0) (length (replicate 252 (0 :: byte)))
       = Inl OutOfBounds"
  by (simp add: XBEE_MAX_FRAME_DATA_SIZE_def api_send_frame_fault)

theorem framing_round_trip_witness:
  "\<exists>self1 self2 frame.
    api_send_frame (sim_xbee 1 []) 0x10 [1, 2, 3] (length [1, 2, 3 :: byte])
      = Inr (API_SEND_SUCCESS, self1)
    \<and> last (tx (host self1)) = wire_frame 0x10 [1, 2, 3]
    \<and> api_receive_api_frame (self1\<lparr>host := (host self1)\<lparr>rx := last (tx (host self1))\<rparr>\<rparr>)
         (Some zero_frame) = (0, Some frame, self2)
    \<and> frm_type frame = 0x10 \<and> frm_length frame = length [1, 2, 3 :: byte] + 1
    \<and> take (length [1, 2, 3 :: byte]) (drop 1 (frm_data frame)) = [1, 2, 3]"
  using framing_round_trip_within_buffer [of "sim_xbee 1 []" "[1, 2, 3]" "0x10"]
  by (simp add: sim_xbee_def)

lemma receive_garbage:
  assumes "htable self = sim_htable" "rx (host self) = b # rest" "b \<noteq> 0x7E"
  shows "api_receive_api_frame self (Some f0) = (-3, Some zero_frame, self\<lparr>host := (host self)\<lparr>rx := rest\<rparr>\<rparr>)"
  using assms
  by (simp add: api_receive_api_frame_def sim_htable_def sim_uart_read_def Let_def)

lemma receive_calls_garbage:
  assumes "htable self = sim_htable" "rx (host self) = garbage @ rest" "\<forall>b \<in> set garbage. b \<noteq> 0x7E"
  shows "receive_calls (length garbage) self =
    map (\<lambda>i. (-3, self\<lparr>host := (host self)\<lparr>rx := drop (Suc i) garbage @ rest\<rparr>\<rparr>)) [0..<length garbage]"
  using assms
proof (induction garbage arbitrary: self)
  case Nil
  then show ?case by simp
next
  case (Cons b bs)
  let ?self' = "self\<lparr>host := (host self)\<lparr>rx := bs @ rest\<rparr>\<rparr>"
  have r: "api_receive_api_frame self (Some zero_frame) = (-3, Some zero_frame, ?self')"
    using Cons.prems by (intro receive_garbage) auto
  have ih: "receive_calls (length bs) ?self' =
      map (\<lambda>i. (-3, ?self'\<lparr>host := (host ?self')\<lparr>rx := drop (Suc i) bs @ rest\<rparr>\<rparr>)) [0..<length bs]"
    using Cons.prems by (intro Cons.IH) auto
  show ?case
    by (simp add: r ih upt_conv_Cons map_Suc_upt [symmetric] del: upt_Suc)
qed


text \<open>
  Claim C7: when the UART holds \<open>k\<close> bytes other than \<open>0x7E\<close> followed by a valid frame, each
  of \<open>k\<close> successive calls of \<^verbatim>\<open>api_receive_api_frame\<close> returns -3 (invalid start
  delimiter) and consumes exactly one of these bytes, and the call after them returns 0
  with the frame.
\<close>

theorem resynchronisation:
  assumes "htable self = sim_htable"
    and "rx (host self) = garbage @ wire_frame t p @ rest"
    and "\<forall>b \<in> set garbage. b \<noteq> 0x7E"
    and "length p < 256"
  shows "receive_calls (length garbage) self =
      map (\<lambda>i. (-3, self\<lparr>host := (host self)\<lparr>rx := drop (Suc i) garbage @ wire_frame t p @ rest\<rparr>\<rparr>))
        [0..<length garbage]
    \<and> api_receive_api_frame (self\<lparr>host := (host self)\<lparr>rx := wire_frame t p @ rest\<rparr>\<rparr>)
        (Some zero_frame) =
      (0, Some (frame_of t p),
       self\<lparr>host := (host self)\<lparr>rx := rest\<rparr>, trace := trace self @ [Received (frame_of t p)]\<rparr>)"
proof -
  have calls: "receive_calls (length garbage) self =
      map (\<lambda>i. (-3, self\<lparr>host := (host self)\<lparr>rx := drop (Suc i) garbage @ wire_frame t p @ rest\<rparr>\<rparr>))
        [0..<length garbage]"
    using assms(1-3) receive_calls_garbage [of self garbage "wire_frame t p @ rest"] by simp
  let ?s = "self\<lparr>host := (host self)\<lparr>rx := wire_frame t p @ rest\<rparr>\<rparr>"
  have "api_receive_api_frame ?s (Some zero_frame) =
      (0, Some (frame_of t p),
       ?s\<lparr>host := (host ?s)\<lparr>rx := rest\<rparr>, trace := trace ?s @ [Received (frame_of t p)]\<rparr>)"
    using assms(1,4) by (intro receive_wire_frame) simp_all
  then show ?thesis using calls by simp
qed

theorem resynchronisation_witness:
  "receive_calls (length [0x00, 0x11 :: byte])
        (sim_xbee 1 ([0x00, 0x11] @ wire_frame 0x8A [0x06] @ [])) =
      [(-3, sim_xbee 1 ([0x11] @ wire_frame 0x8A [0x06])),
       (-3, sim_xbee 1 (wire_frame 0x8A [0x06]))]
    \<and> api_receive_api_frame (sim_xbee 1 (wire_frame 0x8A [0x06])) (Some zero_frame) =
      (0, Some (frame_of 0x8A [0x06]),
       (sim_xbee 1 [])\<lparr>trace := [Received (frame_of 0x8A [0x06])]\<rparr>)"
  using resynchronisation [of "sim_xbee 1 ([0x00, 0x11] @ wire_frame 0x8A [0x06] @ [])"
      "[0x00, 0x11]" "0x8A" "[0x06]" "[]"]
  by (simp add: sim_xbee_def sim_host_def upt_conv_Cons del: receive_calls.simps)

section \<open>The AT correlator\<close>

lemma api_handle_frame_shape:
  "trace (api_handle_frame self f) = trace self @ [Routed f]
   \<and> frameIdCntr (api_handle_frame self f) = frameIdCntr self
   \<and> htable (api_handle_frame self f) = htable self
   \<and> vtable (api_handle_frame self f) = vtable self
   \<and> ctable (api_handle_frame self f) = ctable self"
  by (simp add: api_handle_frame_def Let_def xbee_handle_at_response_def
      xbee_handle_modem_status_def split: option.splits)

lemma at_response_loop_trace:
  assumes "at_response_loop n self rb rl start tmo = Inr (st, rb', rl', self')"
  shows "\<exists>fs. (\<forall>f \<in> set fs. frm_type f \<noteq> XBEE_API_TYPE_AT_RESPONSE \<and> wf_frame f)
    \<and> frameIdCntr self' = frameIdCntr self
    \<and> (if st = API_SEND_AT_CMD_RESONSE_TIMEOUT
        then trace self' = trace self @ received_and_routed fs \<and> rb' = rb \<and> rl' = rl
        else \<exists>r. wf_frame r \<and> frm_type r = XBEE_API_TYPE_AT_RESPONSE
          \<and> trace self' = trace self @ received_and_routed fs @ [Received r]
          \<and> st = (if frm_data r ! 4 = 0 then API_SEND_SUCCESS else API_SEND_AT_CMD_ERROR)
          \<and> rl' = Some (of_int (int (frm_length r) - 5))
          \<and> (st = API_SEND_AT_CMD_ERROR \<longrightarrow> rb' = rb))"
  using assms
proof (induction n arbitrary: self)
  case 0
  then show ?case by simp
next
  case (Suc n)
  obtain status fo self1 where rcv: "api_receive_api_frame self (Some zero_frame) = (status, fo, self1)"
    by (cases "api_receive_api_frame self (Some zero_frame)") auto
  note sh = api_receive_api_frame_shape [OF rcv]
  then obtain frame where fo: "fo = Some frame" by auto
  show ?case
  proof (cases "status = 0 \<and> frm_type frame = XBEE_API_TYPE_AT_RESPONSE")
    case True
    with sh fo have tr: "trace self1 = trace self @ [Received frame]" and wf: "wf_frame frame"
      by auto
    from Suc.prems True rcv fo
    have "self' = self1 \<and> st = (if frm_data frame ! 4 = 0 then API_SEND_SUCCESS else API_SEND_AT_CMD_ERROR)
        \<and> rl' = Some (of_int (int (frm_length frame) - 5))
        \<and> (st = API_SEND_AT_CMD_ERROR \<longrightarrow> rb' = rb)"
      by (auto simp: Let_def split: option.splits if_splits sum.splits)
    with tr wf True sh show ?thesis
      by (intro exI [of _ "[]"]) (auto simp: received_and_routed_def)
  next
    case False
    define self2 where "self2 = (if status = 0 then api_handle_frame self1 frame else self1)"
    define self3 where "self3 = self2\<lparr>host := snd (PortMillis (htable self2) (host self2))\<rparr>"
    define now where "now = fst (PortMillis (htable self2) (host self2))"
    define pre where "pre = (if status = 0 then [frame] else [])"
    have tr3: "trace self3 = trace self @ received_and_routed pre"
      and c3: "frameIdCntr self3 = frameIdCntr self"
      and pre: "\<forall>f \<in> set pre. frm_type f \<noteq> XBEE_API_TYPE_AT_RESPONSE \<and> wf_frame f"
      using sh fo False
      by (auto simp: self3_def self2_def pre_def api_handle_frame_shape received_and_routed_def)
    show ?thesis
    proof (cases "now - start \<ge> tmo")
      case True
      with Suc.prems False rcv fo
      have "st = API_SEND_AT_CMD_RESONSE_TIMEOUT \<and> rb' = rb \<and> rl' = rl \<and> self' = self3"
        by (auto simp: Let_def self3_def self2_def now_def split: prod.splits)
      with tr3 c3 pre show ?thesis by (intro exI [of _ pre]) auto
    next
      case nt: False
      let ?self4 = "self3\<lparr>host := PortDelay (htable self3) 1 (host self3)\<rparr>"
      from Suc.prems False rcv fo nt
      have rec: "at_response_loop n ?self4 rb rl start tmo = Inr (st, rb', rl', self')"
        by (auto simp: Let_def self3_def self2_def now_def split: prod.splits)
      from Suc.IH [OF rec] obtain fs where
        fs: "\<forall>f \<in> set fs. frm_type f \<noteq> XBEE_API_TYPE_AT_RESPONSE \<and> wf_frame f"
        and c: "frameIdCntr self' = frameIdCntr ?self4"
        and t: "if st = API_SEND_AT_CMD_RESONSE_TIMEOUT
          then trace self' = trace ?self4 @ received_and_routed fs \<and> rb' = rb \<and> rl' = rl
          else \<exists>r. wf_frame r \<and> frm_type r = XBEE_API_TYPE_AT_RESPONSE
            \<and> trace self' = trace ?self4 @ received_and_routed fs @ [Received r]
            \<and> st = (if frm_data r ! 4 = 0 then API_SEND_SUCCESS else API_SEND_AT_CMD_ERROR)
            \<and> rl' = Some (of_int (int (frm_length r) - 5))
            \<and> (st = API_SEND_AT_CMD_ERROR \<longrightarrow> rb' = rb)"
        by blast
      have app: "received_and_routed (pre @ fs) = received_and_routed pre @ received_and_routed fs"
        by (simp add: received_and_routed_def)
      show ?thesis
        using fs c t pre tr3 c3
        by (intro exI [of _ "pre @ fs"]) (auto simp: app split: if_splits)
    qed
  qed
qed


lemma api_send_at_command_shape:
  assumes "api_send_at_command self command parameter param_length = Inr (st, self1)"
  shows "(trace self1 = trace self \<or> (\<exists>bs. trace self1 = trace self @ [Wrote bs]))
    \<and> htable self1 = htable self \<and> vtable self1 = vtable self \<and> ctable self1 = ctable self"
  using assms
  by (auto simp: api_send_at_command_def Let_def
      split: if_splits option.splits sum.splits dest!: api_send_frame_Inr)

lemma correlator_Inr:
  assumes "api_send_at_command_and_get_response fuel self command parameter rb rl tmo = Inr res"
  shows "\<exists>sst self1.
    api_send_at_command self command (map_option (\<lambda>str. str @ [0]) parameter)
      (case parameter of None \<Rightarrow> (0 :: byte) | Some str \<Rightarrow> of_nat (length str)) = Inr (sst, self1)
    \<and> at_response_loop fuel (self1\<lparr>host := snd (PortMillis (htable self1) (host self1))\<rparr>)
          rb rl (fst (PortMillis (htable self1) (host self1))) tmo = Inr res"
  using assms
  by (simp add: api_send_at_command_and_get_response_def Let_def split: sum.splits prod.splits)

text \<open>
  Claim C2: whenever \<^verbatim>\<open>api_send_at_command_and_get_response\<close> returns, what it did after
  its send is to receive frames of other types than AT Response, passing each to
  \<^verbatim>\<open>api_handle_frame\<close> before the next receive, in the order of arrival; unless it returns
  the timeout status, the last frame it received is the first AT Response (type \<open>0x88\<close>), on
  which it returns at once with a status that depends on the status byte \<open>data[4]\<close> of that
  frame only: the frame ID \<open>data[1]\<close> is not compared with anything.
\<close>

theorem at_correlator_matches_on_type:
  assumes "api_send_at_command_and_get_response fuel self command parameter rb rl tmo
            = Inr (st, rb', rl', self')"
  shows "\<exists>sent fs. (\<forall>e \<in> set sent. \<exists>bs. e = Wrote bs)
    \<and> (\<forall>f \<in> set fs. frm_type f \<noteq> XBEE_API_TYPE_AT_RESPONSE)
    \<and> (if st = API_SEND_AT_CMD_RESONSE_TIMEOUT
        then trace self' = trace self @ sent @ received_and_routed fs
        else \<exists>r. frm_type r = XBEE_API_TYPE_AT_RESPONSE
          \<and> trace self' = trace self @ sent @ received_and_routed fs @ [Received r]
          \<and> st = (if frm_data r ! 4 = 0 then API_SEND_SUCCESS else API_SEND_AT_CMD_ERROR))"
proof -
  from correlator_Inr [OF assms] obtain sst self1 where
    snd: "api_send_at_command self command (map_option (\<lambda>str. str @ [0]) parameter)
      (case parameter of None \<Rightarrow> (0 :: byte) | Some str \<Rightarrow> of_nat (length str)) = Inr (sst, self1)"
    and loop: "at_response_loop fuel (self1\<lparr>host := snd (PortMillis (htable self1) (host self1))\<rparr>)
                 rb rl (fst (PortMillis (htable self1) (host self1))) tmo = Inr (st, rb', rl', self')"
    by blast
  from api_send_at_command_shape [OF snd]
  have "trace self1 = trace self @ [] \<or> (\<exists>bs. trace self1 = trace self @ [Wrote bs])" by simp
  then obtain sent where
    sent: "trace self1 = trace self @ sent" "\<forall>e \<in> set sent. \<exists>bs. e = Wrote bs"
  proof (elim disjE exE)
    assume "trace self1 = trace self @ []"
    then show ?thesis by (intro that [of "[]"]) simp_all
  next
    fix bs assume "trace self1 = trace self @ [Wrote bs]"
    then show ?thesis by (intro that [of "[Wrote bs]"]) simp_all
  qed
  from at_response_loop_trace [OF loop] obtain fs where
    fs: "\<forall>f \<in> set fs. frm_type f \<noteq> XBEE_API_TYPE_AT_RESPONSE \<and> wf_frame f"
    and t: "if st = API_SEND_AT_CMD_RESONSE_TIMEOUT
        then trace self' = trace (self1\<lparr>host := snd (PortMillis (htable self1) (host self1))\<rparr>)
               @ received_and_routed fs \<and> rb' = rb \<and> rl' = rl
        else \<exists>r. wf_frame r \<and> frm_type r = XBEE_API_TYPE_AT_RESPONSE
          \<and> trace self' = trace (self1\<lparr>host := snd (PortMillis (htable self1) (host self1))\<rparr>)
               @ received_and_routed fs @ [Received r]
          \<and> st = (if frm_data r ! 4 = 0 then API_SEND_SUCCESS else API_SEND_AT_CMD_ERROR)
          \<and> rl' = Some (of_int (int (frm_length r) - 5))
          \<and> (st = API_SEND_AT_CMD_ERROR \<longrightarrow> rb' = rb)"
    by blast
  show ?thesis
  proof (cases "st = API_SEND_AT_CMD_RESONSE_TIMEOUT")
    case True
    with t sent fs show ?thesis
      by (intro exI [of _ sent] exI [of _ fs]) simp
  next
    case False
    with t obtain r where "frm_type r = XBEE_API_TYPE_AT_RESPONSE"
      "trace self' = trace self1 @ received_and_routed fs @ [Received r]"
      "st = (if frm_data r ! 4 = 0 then API_SEND_SUCCESS else API_SEND_AT_CMD_ERROR)"
      by auto
    with False sent fs show ?thesis
      by (intro exI [of _ sent] exI [of _ fs]) auto
  qed
qed

text \<open>
  Claim C2 at a concrete input: after the AT command \<open>VR\<close> is sent with frame ID 1, a modem
  status frame and a receive frame arrive and are routed in this order, then the call
  returns success on an AT Response whose frame ID is \<open>0x63\<close>.
\<close>

lemma at_demo_run:
  "api_send_at_command_and_get_response (Suc (Suc (Suc 0))) (sim_xbee 1 at_demo_input)
      AT_VR None (Some [0, 0, 0, 0]) (Some 0) 5000
    = Inr (API_SEND_SUCCESS, Some [0x12, 0x34, 0, 0], Some 2,
        (sim_xbee 2 [])\<lparr>host := (sim_host [])\<lparr>tx := [wire_frame 0x08 [1, 0x56, 0x52]], clock := 2,
                                  delivered := [frame_of 0xA0 [0x01]]\<rparr>,
          trace := [Wrote (wire_frame 0x08 [1, 0x56, 0x52])]
                   @ received_and_routed [frame_of 0x8A [0x06], frame_of 0xA0 [0x01]]
                   @ [Received (frame_of 0x88 [0x63, 0x56, 0x52, 0x00, 0x12, 0x34])]\<rparr>)"
  by (simp add: at_defs at_demo_input_def received_and_routed_def)

theorem at_correlator_matches_on_type_witness:
  "\<exists>self'. api_send_at_command_and_get_response (Suc (Suc (Suc 0))) (sim_xbee 1 at_demo_input)
      AT_VR None (Some [0, 0, 0, 0]) (Some 0) 5000
      = Inr (API_SEND_SUCCESS, Some [0x12, 0x34, 0, 0], Some 2, self')
    \<and> (\<exists>sent fs. (\<forall>e \<in> set sent. \<exists>bs. e = Wrote bs)
      \<and> (\<forall>f \<in> set fs. frm_type f \<noteq> XBEE_API_TYPE_AT_RESPONSE)
      \<and> (if API_SEND_SUCCESS = API_SEND_AT_CMD_RESONSE_TIMEOUT
          then trace self' = trace (sim_xbee 1 at_demo_input) @ sent @ received_and_routed fs
          else \<exists>r. frm_type r = XBEE_API_TYPE_AT_RESPONSE
            \<and> trace self' = trace (sim_xbee 1 at_demo_input) @ sent @ received_and_routed fs
                 @ [Received r]
            \<and> API_SEND_SUCCESS
                = (if frm_data r ! 4 = 0 then API_SEND_SUCCESS else API_SEND_AT_CMD_ERROR)))"
  using at_demo_run at_correlator_matches_on_type [OF at_demo_run] by blast

lemma byte_of_length:
  assumes "5 \<le> n" "n \<le> 256"
  shows "unat (of_int (int n - 5) :: byte) = n - 5"
proof -
  have "int n - 5 = int (n - 5)" using assms by simp
  then have "(of_int (int n - 5) :: byte) = of_int (int (n - 5))" by (simp only:)
  also have "\<dots> = of_nat (n - 5)" by (simp only: of_int_of_nat_eq)
  finally have eq: "(of_int (int n - 5) :: byte) = of_nat (n - 5)" .
  have "n - 5 < 256" using assms by simp
  then have "unat (of_nat (n - 5) :: byte) = n - 5" by (simp add: unat_of_nat)
  with eq show ?thesis by (simp only:)
qed

text \<open>
  Claim C10: when \<^verbatim>\<open>api_send_at_command_and_get_response\<close> returns
  \<^verbatim>\<open>API_SEND_AT_CMD_ERROR\<close>, the last frame it received is an AT Response whose status byte
  \<open>data[4]\<close> is not zero, \<^verbatim>\<open>*response_length\<close> holds the length of that frame minus 5, and
  the response buffer is as it was before the call.
\<close>

theorem at_cmd_error_stores_length:
  assumes "api_send_at_command_and_get_response fuel self command parameter rb rl tmo
            = Inr (API_SEND_AT_CMD_ERROR, rb', rl', self')"
  shows "rb' = rb
    \<and> (\<exists>r v. last (trace self') = Received r \<and> frm_type r = XBEE_API_TYPE_AT_RESPONSE
          \<and> frm_data r ! 4 \<noteq> 0 \<and> 5 \<le> frm_length r
          \<and> rl' = Some v \<and> unat v = frm_length r - 5)"
proof -
  from correlator_Inr [OF assms] obtain sst self1 where
    loop: "at_response_loop fuel (self1\<lparr>host := snd (PortMillis (htable self1) (host self1))\<rparr>)
                 rb rl (fst (PortMillis (htable self1) (host self1))) tmo
            = Inr (API_SEND_AT_CMD_ERROR, rb', rl', self')"
    by blast
  have "\<exists>fs. (\<forall>f \<in> set fs. frm_type f \<noteq> XBEE_API_TYPE_AT_RESPONSE \<and> wf_frame f)
    \<and> frameIdCntr self' = frameIdCntr self1
    \<and> (\<exists>r. wf_frame r \<and> frm_type r = XBEE_API_TYPE_AT_RESPONSE
          \<and> trace self' = trace self1 @ received_and_routed fs @ [Received r]
          \<and> API_SEND_AT_CMD_ERROR
              = (if frm_data r ! 4 = 0 then API_SEND_SUCCESS else API_SEND_AT_CMD_ERROR)
          \<and> rl' = Some (of_int (int (frm_length r) - 5))
          \<and> rb' = rb)"
    using at_response_loop_trace [OF loop] by simp
  then obtain fs r where
    r: "wf_frame r" "frm_type r = XBEE_API_TYPE_AT_RESPONSE"
      "trace self' = trace self1 @ received_and_routed fs @ [Received r]"
      "API_SEND_AT_CMD_ERROR
              = (if frm_data r ! 4 = 0 then API_SEND_SUCCESS else API_SEND_AT_CMD_ERROR)"
      "rl' = Some (of_int (int (frm_length r) - 5))" "rb' = rb"
    by blast
  have nz: "frm_data r ! 4 \<noteq> 0" using r(4) by (cases "frm_data r ! 4 = 0") simp_all
  have "\<not> frm_length r \<le> 4"
  proof
    assume "frm_length r \<le> 4"
    with r(1) have "frm_data r ! 4 = 0" unfolding wf_frame_def by simp
    with nz show False by simp
  qed
  moreover have "frm_length r \<le> 256" using r(1) unfolding wf_frame_def by simp
  ultimately have len: "5 \<le> frm_length r" "frm_length r \<le> 256" by simp_all
  have "unat (of_int (int (frm_length r) - 5) :: byte) = frm_length r - 5"
    using len by (rule byte_of_length)
  with r(2,3,5,6) nz len(1) show ?thesis by simp
qed


text \<open>
  Claim C10 at a concrete input: an AT Response of length 6 with status byte 2 makes the call
  return \<^verbatim>\<open>API_SEND_AT_CMD_ERROR\<close> with \<^verbatim>\<open>*response_length\<close> set to 1 and the buffer
  untouched.
\<close>

lemma at_error_run:
  "api_send_at_command_and_get_response (Suc 0) (sim_xbee 1 at_error_input)
      AT_VR None (Some [7, 7]) (Some 9) 5000
    = Inr (API_SEND_AT_CMD_ERROR, Some [7, 7], Some 1,
        (sim_xbee 2 [])\<lparr>host := (sim_host [])\<lparr>tx := [wire_frame 0x08 [1, 0x56, 0x52]]\<rparr>,
          trace := [Wrote (wire_frame 0x08 [1, 0x56, 0x52]),
                    Received (frame_of 0x88 [0x01, 0x56, 0x52, 0x02, 0xAA])]\<rparr>)"
  by (simp add: at_defs at_error_input_def)

theorem at_cmd_error_stores_length_witness:
  "\<exists>self'. api_send_at_command_and_get_response (Suc 0) (sim_xbee 1 at_error_input)
      AT_VR None (Some [7, 7]) (Some 9) 5000
      = Inr (API_SEND_AT_CMD_ERROR, Some [7, 7], Some 1, self')
    \<and> Some [7, 7 :: byte] = Some [7, 7]
    \<and> (\<exists>r v. last (trace self') = Received r \<and> frm_type r = XBEE_API_TYPE_AT_RESPONSE
          \<and> frm_data r ! 4 \<noteq> 0 \<and> 5 \<le> frm_length r
          \<and> Some (1 :: byte) = Some v \<and> unat v = frm_length r - 5)"
  using at_error_run at_cmd_error_stores_length [OF at_error_run] by blast

text \<open>
  Claim C4 fails on the code: \<^verbatim>\<open>api_send_at_command_and_get_response\<close> takes no capacity
  of the response buffer and copies \<^verbatim>\<open>frame.length - 5\<close> bytes into it. With an AT
  Response that carries two data bytes and a buffer of one byte, the \<^verbatim>\<open>memcpy\<close> writes
  past the buffer; no status \<^verbatim>\<open>API_SEND_ERROR_BUFFER_TOO_SMALL\<close> is ever returned.
\<close>

theorem at_response_overflows_small_buffer:
  "api_send_at_command_and_get_response (Suc 0)
      (sim_xbee 1 (wire_frame 0x88 [0x01, 0x56, 0x52, 0x00, 0x12, 0x34]))
      AT_VR None (Some [0]) (Some 0) 5000
    = Inl OutOfBounds"
  by (simp add: at_defs)

text \<open>
  Claim C5 fails on the code: for the invalid command, \<^verbatim>\<open>api_send_at_command\<close> reads
  \<^verbatim>\<open>cmd_str[0]\<close> through the null pointer before it tests \<^verbatim>\<open>cmd_str == NULL\<close>, and
  \<^verbatim>\<open>api_send_at_command_and_get_response\<close> calls it the same way.
\<close>

theorem invalid_command_not_refused:
  "api_send_at_command self AT_INVALID None 0 = Inl NullPointer
   \<and> api_send_at_command_and_get_response fuel self AT_INVALID None rb rl tmo = Inl NullPointer"
  by (simp add: api_send_at_command_and_get_response_def api_send_at_command_def)

text \<open>
  \<^verbatim>\<open>api_send_at_command_and_get_response\<close> does not read the status of its send: when
  \<^verbatim>\<open>api_send_at_command\<close> refuses a parameter of 200 bytes and writes nothing, the loop
  is entered all the same and the call returns success on a pending AT Response.
\<close>

lemma correlator_ignores_send_status:
  "api_send_at_command (sim_xbee 1 (wire_frame 0x88 [0x01, 0x56, 0x52, 0x00])) AT_VR
      (Some (replicate 200 0x41 @ [0])) 200
    = Inr (API_SEND_ERROR_FRAME_TOO_LARGE, sim_xbee 1 (wire_frame 0x88 [0x01, 0x56, 0x52, 0x00]))
   \<and> api_send_at_command_and_get_response (Suc 0)
      (sim_xbee 1 (wire_frame 0x88 [0x01, 0x56, 0x52, 0x00])) AT_VR
      (Some (replicate 200 0x41)) None (Some 9) 5000
    = Inr (API_SEND_SUCCESS, None, Some 0,
        (sim_xbee 1 [])\<lparr>trace := [Received (frame_of 0x88 [0x01, 0x56, 0x52, 0x00])]\<rparr>)"
  by (simp add: at_defs)

subsection \<open>The correlator returns on the first AT Response\<close>

text \<open>
  On the simulated host the call returns, given fuel for one iteration more than the
  frames ahead of the AT Response and a timeout of at least as many milliseconds: when the
  input holds frames of other types followed by an AT Response with any frame ID \<open>p ! 0\<close>,
  the loop routes the former in their order and returns on the latter, with success or
  \<^verbatim>\<open>API_SEND_AT_CMD_ERROR\<close> by its status byte and with the frame length minus 5 stored
  at \<^verbatim>\<open>response_length\<close>.
\<close>

lemma api_handle_frame_sim:
  assumes "vtable self = sim_vtable"
  shows "rx (host (api_handle_frame self f)) = rx (host self)
    \<and> clock (host (api_handle_frame self f)) = clock (host self)"
  using assms
  by (simp add: api_handle_frame_def Let_def xbee_handle_at_response_def
      xbee_handle_modem_status_def sim_vtable_def sim_deliver_def)

lemma frame_of_simps:
  "frm_type (frame_of t p) = t" "frm_length (frame_of t p) = length p + 1"
  "length p < 256 \<Longrightarrow> length (frm_data (frame_of t p)) = 256"
  "3 < length p \<Longrightarrow> frm_data (frame_of t p) ! 4 = p ! 3"
  by (simp_all add: frame_of_def XBEE_MAX_FRAME_DATA_SIZE_def nth_append)

lemma at_response_returns:
  fixes self :: "sim XBee"
  assumes ht: "htable self = sim_htable"
    and rx: "rx (host self) = wire_frame XBEE_API_TYPE_AT_RESPONSE p @ rest"
    and p: "4 \<le> length p" "length p < 256"
    and buf: "case rb of None \<Rightarrow> True | Some buf \<Rightarrow> p ! 3 = 0 \<longrightarrow> length p - 4 \<le> length buf"
  shows "\<exists>rb' self'. at_response_loop (Suc n) self rb (Some l) start tmo
        = Inr (if p ! 3 = 0 then API_SEND_SUCCESS else API_SEND_AT_CMD_ERROR, rb',
               Some (of_nat (length p - 4)), self')
     \<and> trace self' = trace self @ [Received (frame_of XBEE_API_TYPE_AT_RESPONSE p)]
     \<and> rx (host self') = rest"
proof -
  note r = receive_wire_frame [OF ht rx p(2), of zero_frame]
  have len: "(of_int (int (length p + 1) - 5) :: byte) = of_nat (length p - 4)"
  proof -
    have "int (length p + 1) - 5 = int (length p - 4)" using p by simp
    then show ?thesis by (simp only: of_int_of_nat_eq)
  qed
  have u: "unat (of_nat (length p - 4) :: byte) = length p - 4"
  proof -
    define m where "m = length p - 4"
    have "m < 256" using p by (simp add: m_def)
    then have "unat (of_nat m :: byte) = m" by (simp add: unat_of_nat)
    then show ?thesis by (simp only: m_def)
  qed
  have len2: "(of_nat (length p) :: byte) - 4 = of_nat (length p - 4)"
    using p by (simp add: of_nat_diff)
  have d4: "frm_data (frame_of XBEE_API_TYPE_AT_RESPONSE p) ! 4 = p ! 3"
    using p by (simp add: frame_of_simps)
  have dl: "length (frm_data (frame_of XBEE_API_TYPE_AT_RESPONSE p)) = 256"
    using p by (simp add: frame_of_simps)
  show ?thesis
  proof (cases "p ! 3 = 0")
    case False
    then show ?thesis
      by (simp add: r frame_of_simps(1,2) d4 len len2 Let_def del: of_nat_diff)
  next
    case True
    show ?thesis
    proof (cases rb)
      case None
      with True show ?thesis
        by (simp add: r frame_of_simps(1,2) d4 len len2 Let_def del: of_nat_diff)
    next
      case (Some b)
      with buf True have "length p - 4 \<le> length b" by simp
      then have "\<exists>b'. memcpy b (drop 5 (frm_data (frame_of XBEE_API_TYPE_AT_RESPONSE p)))
          (length p - 4) = Inr b'"
        using p by (simp add: memcpy_def dl)
      then obtain b' where "memcpy b (drop 5 (frm_data (frame_of XBEE_API_TYPE_AT_RESPONSE p)))
          (length p - 4) = Inr b'" ..
      with True Some show ?thesis
        by (simp add: r frame_of_simps(1,2) d4 len len2 u Let_def del: of_nat_diff)
    qed
  qed
qed


lemma at_response_loop_returns:
  fixes self :: "sim XBee"
  assumes "htable self = sim_htable" and "vtable self = sim_vtable"
    and "rx (host self) = wire_frames fs @ wire_frame XBEE_API_TYPE_AT_RESPONSE p @ rest"
    and "\<forall>(t, q) \<in> set fs. t \<noteq> XBEE_API_TYPE_AT_RESPONSE \<and> length q < 256"
    and "4 \<le> length p" and "length p < 256"
    and "case rb of None \<Rightarrow> True | Some buf \<Rightarrow> p ! 3 = 0 \<longrightarrow> length p - 4 \<le> length buf"
    and "unat (clock (host self) - start) + length fs \<le> unat tmo"
    and "length fs < fuel"
  shows "\<exists>rb' self'. at_response_loop fuel self rb (Some l) start tmo
        = Inr (if p ! 3 = 0 then API_SEND_SUCCESS else API_SEND_AT_CMD_ERROR, rb',
               Some (of_nat (length p - 4)), self')
     \<and> trace self' = trace self @ received_and_routed (frames_of fs)
          @ [Received (frame_of XBEE_API_TYPE_AT_RESPONSE p)]
     \<and> rx (host self') = rest"
  using assms
proof (induction fs arbitrary: self fuel)
  case Nil
  from Nil.prems(9) obtain n where n: "fuel = Suc n" by (cases fuel) auto
  from Nil.prems(3) have rx: "rx (host self) = wire_frame XBEE_API_TYPE_AT_RESPONSE p @ rest"
    by (simp add: wire_frames_def)
  from at_response_returns [OF Nil.prems(1) rx Nil.prems(5,6,7), of n l start tmo]
  show ?case by (simp add: n frames_of_def received_and_routed_def)
next
  case (Cons f fs)
  obtain t q where f: "f = (t, q)" by (cases f)
  from Cons.prems(9) obtain n where n: "fuel = Suc n" and fu: "length fs < n"
    by (cases fuel) auto
  from Cons.prems(4) f have t: "t \<noteq> XBEE_API_TYPE_AT_RESPONSE" and q: "length q < 256" by auto
  let ?rest = "wire_frames fs @ wire_frame XBEE_API_TYPE_AT_RESPONSE p @ rest"
  from Cons.prems(3) f have rx: "rx (host self) = wire_frame t q @ ?rest"
    by (simp add: wire_frames_def)
  note r = receive_wire_frame [OF Cons.prems(1) rx q, of zero_frame]
  let ?self1 = "self\<lparr>host := (host self)\<lparr>rx := ?rest\<rparr>,
                     trace := trace self @ [Received (frame_of t q)]\<rparr>"
  let ?self2 = "api_handle_frame ?self1 (frame_of t q)"
  let ?self3 = "?self2\<lparr>host := (host ?self2)\<lparr>clock := clock (host ?self2) + 1\<rparr>\<rparr>"
  have v1: "vtable ?self1 = sim_vtable" using Cons.prems(2) by simp
  note h = api_handle_frame_sim [OF v1, of "frame_of t q"]
  note sh = api_handle_frame_shape [of ?self1 "frame_of t q"]
  have d: "unat (clock (host self) - start) < unat tmo" using Cons.prems(8) by simp
  then have go: "\<not> tmo \<le> clock (host self) - start" by (simp add: word_le_nat_alt)
  have step: "at_response_loop fuel self rb (Some l) start tmo
      = at_response_loop n ?self3 rb (Some l) start tmo"
    using t go h sh Cons.prems(1)
    by (simp add: n r frame_of_simps(1) Let_def sim_htable_def)
  have 1: "htable ?self3 = sim_htable" using sh Cons.prems(1) by simp
  have 2: "vtable ?self3 = sim_vtable" using sh Cons.prems(2) by simp
  have 3: "rx (host ?self3) = ?rest" using h by simp
  have 4: "\<forall>(t, q) \<in> set fs. t \<noteq> XBEE_API_TYPE_AT_RESPONSE \<and> length q < 256"
    using Cons.prems(4) by simp
  define d0 where "d0 = unat (clock (host self) - start)"
  define d3 where "d3 = unat (clock (host ?self3) - start)"
  have "unat tmo < 2 ^ 32" using unsigned_less [of tmo, where ?'a = nat] by simp
  with d have "d0 + 1 < 2 ^ 32" by (simp add: d0_def)
  then have u1: "unat (clock (host self) - start + 1) = d0 + 1"
    by (simp add: unat_word_ariths d0_def)
  have "clock (host ?self3) - start = clock (host self) - start + 1" using h by simp
  then have "d3 = d0 + 1" unfolding d3_def using u1 by (simp only:)
  moreover have "d0 + length (f # fs) \<le> unat tmo" using Cons.prems(8) by (simp only: d0_def)
  ultimately have "d3 + length fs \<le> unat tmo" by simp
  then have 8: "unat (clock (host ?self3) - start) + length fs \<le> unat tmo"
    by (simp only: d3_def)
  from Cons.IH [OF 1 2 3 4 Cons.prems(5,6,7) 8 fu] obtain rb' self' where
    "at_response_loop n ?self3 rb (Some l) start tmo
        = Inr (if p ! 3 = 0 then API_SEND_SUCCESS else API_SEND_AT_CMD_ERROR, rb',
               Some (of_nat (length p - 4)), self')"
    "trace self' = trace ?self3 @ received_and_routed (frames_of fs)
          @ [Received (frame_of XBEE_API_TYPE_AT_RESPONSE p)]"
    "rx (host self') = rest"
    by blast
  with step sh f show ?case
    by (simp add: frames_of_def received_and_routed_def)
qed


lemma at_correlator_returns:
  fixes self :: "sim XBee"
  assumes ht: "htable self = sim_htable" and vt: "vtable self = sim_vtable"
    and rx: "rx (host self) = wire_frames fs @ wire_frame XBEE_API_TYPE_AT_RESPONSE p @ rest"
    and fs: "\<forall>(t, q) \<in> set fs. t \<noteq> XBEE_API_TYPE_AT_RESPONSE \<and> length q < 256"
    and p: "4 \<le> length p" "length p < 256"
    and buf: "case rb of None \<Rightarrow> True | Some buf \<Rightarrow> p ! 3 = 0 \<longrightarrow> length p - 4 \<le> length buf"
    and tmo: "length fs \<le> unat tmo"
    and fuel: "length fs < fuel"
    and cmd: "at_command_to_string command = Some cmd_str"
  shows "\<exists>rb' self' bs. api_send_at_command_and_get_response fuel self command None rb (Some l) tmo
        = Inr (if p ! 3 = 0 then API_SEND_SUCCESS else API_SEND_AT_CMD_ERROR, rb',
               Some (of_nat (length p - 4)), self')
     \<and> trace self' = trace self @ [Wrote bs] @ received_and_routed (frames_of fs)
          @ [Received (frame_of XBEE_API_TYPE_AT_RESPONSE p)]"
proof -
  have "\<exists>st self1 bs. api_send_at_command self command None 0 = Inr (st, self1)
      \<and> htable self1 = sim_htable \<and> vtable self1 = sim_vtable
      \<and> rx (host self1) = rx (host self) \<and> trace self1 = trace self @ [Wrote bs]"
    using ht vt by (simp add: api_send_at_command_def cmd api_send_frame_ok Let_def
        sim_htable_def sim_uart_write_def)
  then obtain st self1 bs where
    snd: "api_send_at_command self command None 0 = Inr (st, self1)"
    and 1: "htable self1 = sim_htable" and 2: "vtable self1 = sim_vtable"
    and 3: "rx (host self1) = rx (host self)" and tr: "trace self1 = trace self @ [Wrote bs]"
    by blast
  let ?self2 = "self1\<lparr>host := host self1\<rparr>"
  have 1: "htable ?self2 = sim_htable" using 1 by simp
  have 2: "vtable ?self2 = sim_vtable" using 2 by simp
  have 3: "rx (host ?self2) = wire_frames fs @ wire_frame XBEE_API_TYPE_AT_RESPONSE p @ rest"
    using 3 rx by simp
  have 8: "unat (clock (host ?self2) - clock (host self1)) + length fs \<le> unat tmo"
    using tmo by simp
  from at_response_loop_returns [OF 1 2 3 fs p buf 8 fuel, of l] obtain rb' self' where
    "at_response_loop fuel ?self2 rb (Some l) (clock (host self1)) tmo
        = Inr (if p ! 3 = 0 then API_SEND_SUCCESS else API_SEND_AT_CMD_ERROR, rb',
               Some (of_nat (length p - 4)), self')"
    "trace self' = trace ?self2 @ received_and_routed (frames_of fs)
          @ [Received (frame_of XBEE_API_TYPE_AT_RESPONSE p)]"
    by blast
  moreover have "api_send_at_command_and_get_response fuel self command None rb (Some l) tmo
    = at_response_loop fuel ?self2 rb (Some l) (clock (host self1)) tmo"
    using 1 by (simp add: api_send_at_command_and_get_response_def snd Let_def sim_htable_def)
  ultimately show ?thesis using tr
    by (intro exI [of _ rb'] exI [of _ self'] exI [of _ bs]) simp
qed

section \<open>The frame router\<close>

text \<open>
  Claim C6 fails on the code: \<^verbatim>\<open>api_handle_frame\<close> has no case for the types \<open>0xCD\<close> and
  \<open>0xCE\<close>; a frame of either type falls to the \<^verbatim>\<open>default\<close> branch, which only prints, so
  the device is left as it was (but for the trace) whatever handler the variant registered.
\<close>

theorem cellular_rx_frames_not_dispatched:
  "api_handle_frame self (frame\<lparr>frm_type := XBEE_API_TYPE_CELLULAR_SOCKET_RX\<rparr>)
     = self\<lparr>trace := trace self @ [Routed (frame\<lparr>frm_type := XBEE_API_TYPE_CELLULAR_SOCKET_RX\<rparr>)]\<rparr>
   \<and> api_handle_frame self (frame\<lparr>frm_type := XBEE_API_TYPE_CELLULAR_SOCKET_RX_FROM\<rparr>)
     = self\<lparr>trace := trace self
          @ [Routed (frame\<lparr>frm_type := XBEE_API_TYPE_CELLULAR_SOCKET_RX_FROM\<rparr>)]\<rparr>"
  by (simp add: api_handle_frame_def frame_type_defs)

text \<open>
  On a cellular device with a receive callback, the router leaves a Socket RX frame
  undelivered, while \<^verbatim>\<open>XBeeCellularHandleRxPacket\<close>, called on the same frame, delivers a
  packet.
\<close>

lemma cellular_handler_unreachable:
  "host (api_handle_frame (XBeeCellularCreate (Some sim_ctable) sim_htable 1 (sim_host []))
           (frame_of 0xCD [0x01, 0x00, 0xAA, 0xBB])) = sim_host []
   \<and> packets (XBeeCellularHandleRxPacket (Some sim_ctable)
                 (frame_of 0xCD [0x01, 0x00, 0xAA, 0xBB]) (sim_host [])) \<noteq> []"
  by (simp add: api_handle_frame_def frame_type_defs XBeeCellularCreate_def frame_of_def
      XBeeCellularHandleRxPacket_def sim_ctable_def sim_host_def Let_def)


section \<open>The cellular variant\<close>

lemma unat_offset:
  fixes w :: "16 word"
  assumes "unat w \<le> 120" and "unat (k :: byte) \<le> 9"
  shows "unat (k + ucast w :: byte) = unat k + unat w"
proof -
  have "unat (ucast w :: byte) = unat w"
    using assms by (simp add: unsigned_ucast_eq take_bit_nat_eq_self)
  then show ?thesis using assms by (simp add: unat_word_ariths)
qed

lemma take_prefix: "length xs = n \<Longrightarrow> take n (xs @ ys) = xs"
  by simp

text \<open>
  Claim C8, as the code has it: given a packet whose payload pointer is not null and whose
  \<open>payloadSize\<close> is at most 120 (the payload then fits \<^verbatim>\<open>uint8_t frame[128]\<close> after the
  eight header bytes), on a device whose \<open>frameIdCntr\<close> is \<open>c\<close>,
  \<^verbatim>\<open>XBeeCellularSendPacket\<close> hands exactly one frame to the UART: the frame of type \<open>0x20\<close>
  whose payload is \<open>c\<close>, the protocol, \<open>port >> 8\<close>, \<open>port & 0xFF\<close>, the four address bytes
  and the \<open>payloadSize\<close> payload bytes.
\<close>

theorem cellular_send_packet_frame:
  assumes "pkt_payload packet = Some pl" 
    and "unat (pkt_payloadSize packet) \<le> 120"
    and "unat (pkt_payloadSize packet) \<le> length pl"
    and "length (pkt_ip packet) = 4"
  shows "\<exists>status self'. XBeeCellularSendPacket self packet = Inr (status, self')
    \<and> XBEE_API_TYPE_CELLULAR_TX_IPV4 = 0x20
    \<and> trace self' = trace self
        @ [Wrote (wire_frame XBEE_API_TYPE_CELLULAR_TX_IPV4
            ([frameIdCntr self, pkt_protocol packet, ucast (drop_bit 8 (pkt_port packet)),
              ucast (pkt_port packet AND 0xFF)]
             @ pkt_ip packet @ take (unat (pkt_payloadSize packet)) pl))]"
proof -
  let ?n = "unat (pkt_payloadSize packet)"
  let ?hdr = "[frameIdCntr self, pkt_protocol packet, ucast (drop_bit 8 (pkt_port packet)),
              ucast (pkt_port packet AND 0xFF)]"
  have off: "unat (8 + ucast (pkt_payloadSize packet) :: byte) = 8 + ?n"
    using unat_offset [OF assms(2), of 8] by simp
  have m1: "memcpy (replicate 124 0) (pkt_ip packet) 4 = Inr (pkt_ip packet @ replicate 120 0)"
    using assms(4) by (simp add: memcpy_def)
  have m2: "memcpy (drop 4 (pkt_ip packet @ replicate 120 0)) pl ?n
      = Inr (take ?n pl @ replicate (120 - ?n) 0)"
    using assms(2-4) by (simp add: memcpy_def)
  let ?frame = "?hdr @ take 4 (pkt_ip packet @ replicate 120 0) @ take ?n pl @ replicate (120 - ?n) 0"
  have fr: "?frame = (?hdr @ pkt_ip packet @ take ?n pl) @ replicate (120 - ?n) 0"
    using assms(4) by simp
  have "length (?hdr @ pkt_ip packet @ take ?n pl) = 8 + ?n"
    using assms(3,4) by simp
  then have "take (8 + ?n) ((?hdr @ pkt_ip packet @ take ?n pl) @ replicate (120 - ?n) 0)
      = ?hdr @ pkt_ip packet @ take ?n pl"
    by (rule take_prefix)
  then have tk: "take (8 + ?n) ?frame = ?hdr @ pkt_ip packet @ take ?n pl"
    by (simp only: fr)
  have le: "8 + ?n \<le> 251" "8 + ?n \<le> length ?frame" using assms(2-4) by simp_all
  have call: "XBeeCellularSendPacket self packet =
      (case api_send_frame self XBEE_API_TYPE_CELLULAR_TX_IPV4 ?frame (8 + ?n) of
         Inl e \<Rightarrow> Inl e
       | Inr (status, self') \<Rightarrow> Inr (if status = API_SEND_SUCCESS then 0x00 else 0xFF, self'))"
    by (simp only: XBeeCellularSendPacket_def Let_def m1 sum.case assms(1) option.case m2 off)
  show ?thesis
    by (simp add: call api_send_frame_ok [OF le] tk Let_def XBEE_API_TYPE_CELLULAR_TX_IPV4_def
        del: take_append append_assoc append.simps)
qed


text \<open>
  Claim C8 at the input of the specification: with protocol 1, port 80, address 1.2.3.4,
  payload \<open>AA BB\<close> and \<open>frameIdCntr = 5\<close>, the frame sent has type \<open>0x20\<close> and payload
  \<open>05 01 00 50 01 02 03 04 AA BB\<close>.
\<close>

theorem cellular_send_packet_frame_witness:
  "\<exists>status self'. XBeeCellularSendPacket (sim_xbee 5 []) demo_packet = Inr (status, self')
    \<and> XBEE_API_TYPE_CELLULAR_TX_IPV4 = 0x20
    \<and> trace self' =
        [Wrote (wire_frame 0x20 [0x05, 0x01, 0x00, 0x50, 0x01, 0x02, 0x03, 0x04, 0xAA, 0xBB])]
    \<and> wire_frame 0x20 [0x05, 0x01, 0x00, 0x50, 0x01, 0x02, 0x03, 0x04, 0xAA, 0xBB]
        = [0x7E, 0x00, 0x0B, 0x20, 0x05, 0x01, 0x00, 0x50, 0x01, 0x02, 0x03, 0x04, 0xAA, 0xBB,
           0x1A]"
proof -
  have "\<exists>status self'. XBeeCellularSendPacket (sim_xbee 5 []) demo_packet = Inr (status, self')
    \<and> XBEE_API_TYPE_CELLULAR_TX_IPV4 = 0x20
    \<and> trace self' = trace (sim_xbee 5 [])
        @ [Wrote (wire_frame XBEE_API_TYPE_CELLULAR_TX_IPV4
            ([frameIdCntr (sim_xbee 5 []), pkt_protocol demo_packet,
              ucast (drop_bit 8 (pkt_port demo_packet)), ucast (pkt_port demo_packet AND 0xFF)]
             @ pkt_ip demo_packet @ take (unat (pkt_payloadSize demo_packet)) [0xAA, 0xBB]))]"
    by (rule cellular_send_packet_frame) (simp_all add: demo_packet_def)
  moreover have "wire_frame 0x20 [0x05, 0x01, 0x00, 0x50, 0x01, 0x02, 0x03, 0x04, 0xAA, 0xBB]
        = [0x7E, 0x00, 0x0B, 0x20, 0x05, 0x01, 0x00, 0x50, 0x01, 0x02, 0x03, 0x04, 0xAA, 0xBB,
           0x1A :: byte]"
    by (simp add: wire_frame_def)
  ultimately show ?thesis
    by (simp add: demo_packet_def sim_xbee_def XBEE_API_TYPE_CELLULAR_TX_IPV4_def)
qed


text \<open>
  Claim C8 as stated holds of no packet with more than 120 payload bytes: with 121 bytes the
  \<^verbatim>\<open>memcpy\<close> of the payload writes \<^verbatim>\<open>frame[128]\<close>, past the end of the buffer (the
  sibling \<^verbatim>\<open>XBeeCellularSocketSend\<close> refuses such a payload, this function does not).
\<close>

theorem cellular_send_packet_counterexample:
  "XBeeCellularSendPacket (sim_xbee 5 [])
      (demo_packet\<lparr>pkt_payload := Some (replicate 121 0xAA), pkt_payloadSize := 121\<rparr>)
    = Inl OutOfBounds"
  by (simp add: XBeeCellularSendPacket_def demo_packet_def memcpy_def)

section \<open>The waits of the socket operations\<close>



























section \<open>Frame IDs\<close>


































end
